theory Spec2Isabelle
  imports Complex_Main
begin

section \<open>The notebook's \<open>compute_ecc\<close>\<close>

text \<open>
  The repository is one notebook, \<^verbatim>\<open>ECT_exercises_questions.ipynb\<close>. Its only function
  is

  \<^verbatim>\<open>def compute_ecc(data, starting_point, end_time, normal):\<close>
  \<^verbatim>\<open>    """Computes the Euler characteristic curve along a given direction. ...\<close>
  \<^verbatim>\<open>    Returns\<close>
  \<^verbatim>\<open>    -------\<close>
  \<^verbatim>\<open>    ecc : list\<close>
  \<^verbatim>\<open>        The Euler characteristic curve in the given direction.\<close>
  \<^verbatim>\<open>    """\<close>

  The body is the docstring and nothing else: no statement reads a parameter, none
  returns, none raises. A Python function whose body ends without \<^verbatim>\<open>return\<close>
  returns \<^verbatim>\<open>None\<close>.
\<close>

subsection \<open>Python values\<close>

text \<open>
  The parameters are untyped in the source (\<open>array-like\<close>, \<open>scalar\<close>), so an argument
  is any Python value. A float is a real number or one of the three non-finite values.
\<close>

datatype pyfloat = Finite real | PosInf | NegInf | NaN

datatype pyval =
    PyNone
  | PyBool bool
  | PyInt int
  | PyFloat pyfloat
  | PyStr string
  | PyList "pyval list"

text \<open>
  The exceptions the specification names. The notebook defines none of them and has no
  \<^verbatim>\<open>raise\<close> statement; the type is here so that "fails with" can be stated.
\<close>

datatype error = EmptyInputError | InvalidDirectionError | InvalidRangeError

text \<open>
  What a call can reach: the four argument objects (Python passes them by reference, so
  a callee could update them in place) and the notebook's global names.
\<close>

record state =
  data :: pyval
  starting_point :: pyval
  end_time :: pyval
  normal :: pyval
  globals :: "(string \<times> pyval) list"

subsection \<open>The function\<close>

text \<open>
  A call yields the returned value (\<open>Inr\<close>) or the raised exception (\<open>Inl\<close>), and the
  state it leaves behind. The body holds only the docstring, so the call falls off the
  end: it returns \<^verbatim>\<open>None\<close> and leaves the state as it was.
\<close>

definition compute_ecc :: "state \<Rightarrow> (error + pyval) \<times> state" where
  "compute_ecc s = (Inr PyNone, s)"

subsection \<open>The documented curve\<close>

text \<open>
  The specification's reading of the docstring, kept apart from the code under names
  that start with \<open>spec_\<close>: a point \<open>p\<close> is included at step \<open>t\<close> iff
  \<open>dot normal p - dot normal starting_point < t\<close>; an edge joins consecutive points and
  counts once both ends are included; the curve is the point count minus the edge count
  at \<open>t = 0, 1, ..., end_time\<close>.
\<close>

type_synonym vec3 = "real \<times> real \<times> real"

fun dot :: "vec3 \<Rightarrow> vec3 \<Rightarrow> real" where
  "dot (a, b, c) (x, y, z) = a * x + b * y + c * z"

definition spec_included :: "vec3 \<Rightarrow> vec3 \<Rightarrow> int \<Rightarrow> vec3 \<Rightarrow> bool" where
  "spec_included n sp t p = (dot n p - dot n sp < of_int t)"

fun spec_edges :: "vec3 list \<Rightarrow> (vec3 \<times> vec3) list" where
  "spec_edges (p # q # ps) = (p, q) # spec_edges (q # ps)"
| "spec_edges ps = []"

definition spec_point_count :: "vec3 list \<Rightarrow> vec3 \<Rightarrow> vec3 \<Rightarrow> int \<Rightarrow> int" where
  "spec_point_count pts sp n t = int (length (filter (spec_included n sp t) pts))"

definition spec_edge_count :: "vec3 list \<Rightarrow> vec3 \<Rightarrow> vec3 \<Rightarrow> int \<Rightarrow> int" where
  "spec_edge_count pts sp n t =
     int (length (filter (\<lambda>e. spec_included n sp t (fst e) \<and> spec_included n sp t (snd e))
                         (spec_edges pts)))"

definition spec_ecc :: "vec3 list \<Rightarrow> vec3 \<Rightarrow> int \<Rightarrow> vec3 \<Rightarrow> int list" where
  "spec_ecc pts sp et n =
     map (\<lambda>t. spec_point_count pts sp n t - spec_edge_count pts sp n t) [0..et]"

subsection \<open>Arguments and results as Python values\<close>

definition py_vec :: "vec3 \<Rightarrow> pyval" where
  "py_vec v = (case v of (x, y, z) \<Rightarrow>
     PyList [PyFloat (Finite x), PyFloat (Finite y), PyFloat (Finite z)])"

definition py_points :: "vec3 list \<Rightarrow> pyval" where
  "py_points pts = PyList (map py_vec pts)"

definition py_ints :: "int list \<Rightarrow> pyval" where
  "py_ints xs = PyList (map PyInt xs)"

text \<open>The state of a call \<^verbatim>\<open>compute_ecc(pts, sp, et, n)\<close> from a fresh notebook.\<close>

definition call :: "vec3 list \<Rightarrow> vec3 \<Rightarrow> pyval \<Rightarrow> vec3 \<Rightarrow> state" where
  "call pts sp et n =
     \<lparr>data = py_points pts, starting_point = py_vec sp, end_time = et,
      normal = py_vec n, globals = []\<rparr>"

text \<open>
  The \<open>i\<close>-th entry of a returned curve: defined when the call returned a list that has
  an integer at index \<open>i\<close>, and \<open>None\<close> otherwise (an exception, a value that is no
  list, an index past the end, an entry that is no integer).
\<close>

fun entry_of :: "pyval list \<Rightarrow> nat \<Rightarrow> int option" where
  "entry_of [] i = None"
| "entry_of (PyInt k # xs) 0 = Some k"
| "entry_of (x # xs) 0 = None"
| "entry_of (x # xs) (Suc i) = entry_of xs i"

fun ecc_entry :: "error + pyval \<Rightarrow> nat \<Rightarrow> int option" where
  "ecc_entry (Inr (PyList xs)) i = entry_of xs i"
| "ecc_entry r i = None"

section \<open>What the function does\<close>

text \<open>
  C3. For every input whatsoever, valid or not (a zero normal, a negative end time, an
  empty point sequence, arguments of any type), \<open>compute_ecc\<close> returns \<^verbatim>\<open>None\<close> and
  raises no exception: it computes nothing and validates nothing.
\<close>

theorem compute_ecc_returns_None:
  "fst (compute_ecc s) = Inr PyNone"
  by (simp add: compute_ecc_def)

text \<open>
  C10. \<open>compute_ecc\<close> is pure: a call leaves \<open>data\<close>, \<open>starting_point\<close>, \<open>end_time\<close>,
  \<open>normal\<close> and the global names exactly as it found them, and two calls with equal
  arguments return equal results whatever the surrounding state is.
\<close>

theorem compute_ecc_pure:
  "snd (compute_ecc s) = s \<and>
   fst (compute_ecc (s\<lparr>globals := g\<rparr>)) = fst (compute_ecc (s\<lparr>globals := g'\<rparr>))"
  by (simp add: compute_ecc_def)

section \<open>Input validation\<close>

text \<open>
  The function checks none of its arguments. Each of the three errors of the
  specification is therefore never raised, on the inputs the specification rejects as
  on all others.
\<close>

text \<open>
  C4, as amended. \<open>compute_ecc\<close> does not validate \<open>normal\<close>: no input, with a zero
  normal or any other, makes it fail with \<open>InvalidDirectionError\<close>.
\<close>

theorem compute_ecc_never_InvalidDirectionError:
  "fst (compute_ecc s) \<noteq> Inl InvalidDirectionError"
  by (simp add: compute_ecc_def)

text \<open>
  C4 as stated fails: with the zero vector as \<open>normal\<close> the call does not fail with
  \<open>InvalidDirectionError\<close>.
\<close>

theorem zero_normal_not_rejected:
  "fst (compute_ecc (call [(0, 0, 0), (1, 0, 0)] (0, 0, 0) (PyInt 3) (0, 0, 0)))
     \<noteq> Inl InvalidDirectionError"
  by (simp add: compute_ecc_def)

text \<open>
  C5, as amended. \<open>compute_ecc\<close> does not validate \<open>end_time\<close>: no input, with a
  negative or non-finite end time or any other, makes it fail with \<open>InvalidRangeError\<close>.
\<close>

theorem compute_ecc_never_InvalidRangeError:
  "fst (compute_ecc s) \<noteq> Inl InvalidRangeError"
  by (simp add: compute_ecc_def)

text \<open>
  C5 as stated fails: with \<open>end_time = -1\<close>, and with \<open>end_time = inf\<close>, the call does
  not fail with \<open>InvalidRangeError\<close>.
\<close>

theorem bad_end_time_not_rejected:
  "fst (compute_ecc (call [(0, 0, 0), (1, 0, 0)] (0, 0, 0) (PyInt (- 1)) (1, 0, 0)))
     \<noteq> Inl InvalidRangeError \<and>
   fst (compute_ecc (call [(0, 0, 0), (1, 0, 0)] (0, 0, 0) (PyFloat PosInf) (1, 0, 0)))
     \<noteq> Inl InvalidRangeError"
  by (simp add: compute_ecc_def)

text \<open>
  C6, as amended. \<open>compute_ecc\<close> does not validate \<open>data\<close>: no input, with an empty
  point sequence or any other, makes it fail with \<open>EmptyInputError\<close>.
\<close>

theorem compute_ecc_never_EmptyInputError:
  "fst (compute_ecc s) \<noteq> Inl EmptyInputError"
  by (simp add: compute_ecc_def)

text \<open>
  C6 as stated fails: with no points the call does not fail with \<open>EmptyInputError\<close>.
\<close>

theorem empty_points_not_rejected:
  "fst (compute_ecc (call [] (0, 0, 0) (PyInt 3) (1, 0, 0))) \<noteq> Inl EmptyInputError"
  by (simp add: compute_ecc_def)

section \<open>The documented curve\<close>

text \<open>
  The docstring promises a list, the Euler characteristic curve, and the comment above
  the function that its first entry is 0 and its last is 1. The curve the specification
  reads from the docstring has the properties the specification names; the function
  returns none of it.
\<close>

subsection \<open>Properties of the documented curve\<close>

lemma upto_0_3: "[0..3] = [0, 1, 2, 3::int]"
  by (simp add: upto.simps)

lemma upto_0_4: "[0..4] = [0, 1, 2, 3, 4::int]"
  by (simp add: upto.simps)

lemma length_spec_edges: "length (spec_edges pts) = length pts - 1"
  by (induction pts rule: spec_edges.induct) simp_all

lemma spec_edges_ends:
  "e \<in> set (spec_edges ps) \<Longrightarrow> fst e \<in> set ps \<and> snd e \<in> set ps"
proof (induction ps rule: spec_edges.induct)
  case (1 p q ps)
  then show ?case by (cases "e = (p, q)") simp_all
qed simp_all

text \<open>The curve has one entry for each of \<open>t = 0, ..., end_time\<close>.\<close>

lemma spec_ecc_length: "0 \<le> et \<Longrightarrow> length (spec_ecc pts sp et n) = nat (et + 1)"
  by (simp add: spec_ecc_def)

lemma spec_point_count_bounds:
  "0 \<le> spec_point_count pts sp n t \<and> spec_point_count pts sp n t \<le> int (length pts)"
  by (simp add: spec_point_count_def)

lemma spec_edge_count_bounds:
  "0 \<le> spec_edge_count pts sp n t \<and> spec_edge_count pts sp n t \<le> int (length pts - 1)"
proof -
  have "length (filter (\<lambda>e. spec_included n sp t (fst e) \<and> spec_included n sp t (snd e))
          (spec_edges pts)) \<le> length (spec_edges pts)"
    by (rule length_filter_le)
  then show ?thesis
    by (simp add: spec_edge_count_def length_spec_edges)
qed

text \<open>With \<open>n\<close> points, every entry of the curve lies between \<open>-(n - 1)\<close> and \<open>n\<close>.\<close>

lemma spec_ecc_bounds:
  assumes "pts \<noteq> []" and "x \<in> set (spec_ecc pts sp et n)"
  shows "- (int (length pts) - 1) \<le> x \<and> x \<le> int (length pts)"
proof -
  from assms(2) obtain t where
    x: "x = spec_point_count pts sp n t - spec_edge_count pts sp n t"
    by (auto simp: spec_ecc_def)
  from assms(1) have "int (length pts - 1) = int (length pts) - 1"
    by (cases pts) simp_all
  with spec_point_count_bounds [of pts sp n t] spec_edge_count_bounds [of pts sp n t] x
  show ?thesis by linarith
qed

text \<open>Once every point is included the value is \<open>n - (n - 1) = 1\<close>.\<close>

lemma spec_ecc_all_included:
  assumes "pts \<noteq> []" and "\<forall>p \<in> set pts. spec_included n sp t p"
  shows "spec_point_count pts sp n t - spec_edge_count pts sp n t = 1"
proof -
  from assms(2) have "filter (spec_included n sp t) pts = pts"
    by (simp add: filter_id_conv)
  moreover from assms(2) have
    "filter (\<lambda>e. spec_included n sp t (fst e) \<and> spec_included n sp t (snd e)) (spec_edges pts)
       = spec_edges pts"
    unfolding filter_id_conv using spec_edges_ends by blast
  moreover from assms(1) have "int (length pts - 1) = int (length pts) - 1"
    by (cases pts) simp_all
  ultimately show ?thesis
    by (simp add: spec_point_count_def spec_edge_count_def length_spec_edges)
qed

text \<open>While no point is included the value is 0.\<close>

lemma spec_ecc_none_included:
  assumes "\<forall>p \<in> set pts. \<not> spec_included n sp t p"
  shows "spec_point_count pts sp n t - spec_edge_count pts sp n t = 0"
proof -
  from assms have "filter (spec_included n sp t) pts = []"
    by (simp add: filter_empty_conv)
  moreover from assms have
    "filter (\<lambda>e. spec_included n sp t (fst e) \<and> spec_included n sp t (snd e)) (spec_edges pts)
       = []"
    unfolding filter_empty_conv using spec_edges_ends by blast
  ultimately show ?thesis
    by (simp add: spec_point_count_def spec_edge_count_def)
qed

text \<open>
  The first entry of the documented curve is 0 only for a starting point that no point
  projects strictly below ("need to choose an appropriate start and end", as the comment
  above the function says): a single point swept from beyond it gives the curve \<open>[1]\<close>.
\<close>

lemma spec_ecc_start_beyond_point: "spec_ecc [(5, 0, 0)] (10, 0, 0) 0 (1, 0, 0) = [1]"
  by (simp add: spec_ecc_def spec_point_count_def spec_edge_count_def spec_included_def)

text \<open>The specification's worked scenario follows from its rule.\<close>

lemma spec_ecc_scenario:
  "spec_ecc [(0, 0, 0), (1, 0, 0), (2, 0, 0)] (0, 0, 0) 3 (1, 0, 0) = [0, 1, 1, 1]"
  by (simp add: spec_ecc_def spec_point_count_def spec_edge_count_def spec_included_def
      upto_0_3)

subsection \<open>The function against the documented curve\<close>

text \<open>
  C1. The claim: on valid input \<open>compute_ecc\<close> returns the sequence whose entry at each
  \<open>t\<close> in \<open>0..end_time\<close> is the point count minus the edge count. The function does
  not: for the two points \<open>(0,0,0)\<close>, \<open>(0,2,0)\<close> swept along \<open>(0,1,0)\<close> from
  \<open>(0,-1,0)\<close> up to \<open>end_time = 4\<close> the documented curve is \<open>[0, 0, 1, 1, 1]\<close>, and
  the value returned is not that list.
\<close>

theorem compute_ecc_not_documented_curve:
  "spec_ecc [(0, 0, 0), (0, 2, 0)] (0, - 1, 0) 4 (0, 1, 0) = [0, 0, 1, 1, 1] \<and>
   fst (compute_ecc (call [(0, 0, 0), (0, 2, 0)] (0, - 1, 0) (PyInt 4) (0, 1, 0)))
     \<noteq> Inr (py_ints (spec_ecc [(0, 0, 0), (0, 2, 0)] (0, - 1, 0) 4 (0, 1, 0)))"
  by (simp add: compute_ecc_def py_ints_def spec_ecc_def spec_point_count_def
      spec_edge_count_def spec_included_def upto_0_4)

text \<open>
  C2. The claim: on valid input \<open>compute_ecc\<close> returns a sequence of exactly
  \<open>end_time + 1\<close> integers. The function does not: for one point, a non-zero normal
  and \<open>end_time = 2\<close> the value returned is no list of any length.
\<close>

theorem compute_ecc_returns_no_sequence:
  "\<not> (\<exists>xs. fst (compute_ecc (call [(1, 1, 1)] (0, 0, 0) (PyInt 2) (1, 1, 1)))
          = Inr (PyList xs))"
  by (simp add: compute_ecc_def)

text \<open>
  C7. The claim: when \<open>end_time\<close> is large enough that every point is included by the
  last step, the returned sequence has \<open>ECC[0] = 0\<close> and \<open>ECC[end_time] = 1\<close>. The
  function does not: for three points at heights 1, 2, 3 swept upwards from the origin
  up to \<open>end_time = 5\<close>, all three points are included at the last step, and the value
  returned has no entry at index 0 and none at index 5.
\<close>

theorem compute_ecc_no_first_last_entry:
  "spec_point_count [(0, 0, 1), (0, 0, 2), (0, 0, 3)] (0, 0, 0) (0, 0, 1) 5 = 3 \<and>
   ecc_entry (fst (compute_ecc
     (call [(0, 0, 1), (0, 0, 2), (0, 0, 3)] (0, 0, 0) (PyInt 5) (0, 0, 1)))) 0 = None \<and>
   ecc_entry (fst (compute_ecc
     (call [(0, 0, 1), (0, 0, 2), (0, 0, 3)] (0, 0, 0) (PyInt 5) (0, 0, 1)))) 5 = None"
  by (simp add: compute_ecc_def spec_point_count_def spec_included_def)

text \<open>
  C8. The claim: for \<open>points = [(0,0,0), (1,0,0), (2,0,0)]\<close>,
  \<open>starting_point = (0,0,0)\<close>, \<open>normal = (1,0,0)\<close> and \<open>end_time = 3\<close> the function
  returns \<open>[0, 1, 1, 1]\<close>. It does not: the value returned is not that list.
\<close>

theorem compute_ecc_scenario:
  "fst (compute_ecc
     \<lparr>data = PyList [PyList [PyInt 0, PyInt 0, PyInt 0],
                     PyList [PyInt 1, PyInt 0, PyInt 0],
                     PyList [PyInt 2, PyInt 0, PyInt 0]],
      starting_point = PyList [PyInt 0, PyInt 0, PyInt 0],
      end_time = PyInt 3,
      normal = PyList [PyInt 1, PyInt 0, PyInt 0],
      globals = []\<rparr>)
   \<noteq> Inr (py_ints [0, 1, 1, 1])"
  by (simp add: compute_ecc_def py_ints_def)

end
